theory Spec2Isabelle
  imports Complex_Main
begin

section \<open>The completion client of go\_gpt3\_cli\<close>

text \<open>
  The program is one function, \<^verbatim>\<open>generateText\<close> of \<^verbatim>\<open>main.go\<close>: it reads the API key
  from the environment, serialises a \<^verbatim>\<open>CompletionRequest\<close>, posts it to the completions
  endpoint, decodes the \<^verbatim>\<open>CompletionResponse\<close> and returns the text of its first choice.

  The repository holds three copies of the file. The text of \<^verbatim>\<open>generateText\<close> is the same
  in all three; they differ in the struct declarations only (the two later copies keep the
  four request fields that the function sets, and \<^verbatim>\<open>Choices\<close>/\<^verbatim>\<open>Text\<close> on the response
  side). The embedding below follows \<^verbatim>\<open>main.go\<close>, the copy with the widest structs.
\<close>

subsection \<open>Data model\<close>

text \<open>
  Go's \<^verbatim>\<open>int\<close> is modelled by \<open>int\<close>: the program stores and compares such values and
  never computes with them. A \<^verbatim>\<open>float64\<close> field is modelled by the real number that its
  decimal literal in the source denotes; no arithmetic is done on these fields either.
  A slice is a list, and the \<^verbatim>\<open>nil\<close> slice is the empty list.
\<close>

record Choice =
  Text :: string
  Index :: int
  Logprobs :: "int list"
  FinishReason :: string
  PresencePenalty :: real
  FrequencyPenalty :: real
  Reranked :: bool
  Truncated :: bool
  Diversity :: real
  Temperature :: real
  TopP :: real
  StopSequence :: "int list"
  Tokens :: "int list"
  Weight :: real
  Probability :: real
  Rank :: int
  DiversityRank :: int
  DiversityScore :: real

record CompletionResponse =
  ID :: string
  Model :: string
  Prompt :: string
  Choices :: "Choice list"
  Stream :: bool
  Streaming :: bool
  Truncated :: bool
  Warning :: string
  Errors :: "string list"
  HasMore :: bool
  MaxTokensPerBatch :: int
  BatchSize :: int
  MaxTries :: int

record CompletionRequest =
  Prompt :: string
  Model :: string
  MaxTokens :: int
  Temperature :: real
  TopP :: real
  FrequencyPenalty :: real
  PresencePenalty :: real
  BestOf :: int
  Stop :: string
  Stream :: bool
  MaxTokensPerBatch :: int
  N :: int
  Streaming :: bool
  StopSequence :: "string list"
  BatchSize :: int
  MaxTries :: int
  Diversity :: real

text \<open>The zero values of the three structs, as Go gives them to fields left unset.\<close>

definition zeroChoice :: Choice where
  "zeroChoice =
     \<lparr>Text = [], Index = 0, Logprobs = [], FinishReason = [],
      Choice.PresencePenalty = 0, Choice.FrequencyPenalty = 0, Reranked = False,
      Choice.Truncated = False, Choice.Diversity = 0, Choice.Temperature = 0,
      Choice.TopP = 0, Choice.StopSequence = [], Tokens = [], Weight = 0,
      Probability = 0, Rank = 0, DiversityRank = 0, DiversityScore = 0\<rparr>"

definition zeroCompletionResponse :: CompletionResponse where
  "zeroCompletionResponse =
     \<lparr>ID = [], CompletionResponse.Model = [], CompletionResponse.Prompt = [], Choices = [],
      CompletionResponse.Stream = False, CompletionResponse.Streaming = False,
      CompletionResponse.Truncated = False, Warning = [], Errors = [], HasMore = False,
      CompletionResponse.MaxTokensPerBatch = 0, CompletionResponse.BatchSize = 0,
      CompletionResponse.MaxTries = 0\<rparr>"

definition zeroCompletionRequest :: CompletionRequest where
  "zeroCompletionRequest =
     \<lparr>Prompt = [], Model = [], MaxTokens = 0, Temperature = 0, TopP = 0,
      FrequencyPenalty = 0, PresencePenalty = 0, BestOf = 0, Stop = [], Stream = False,
      MaxTokensPerBatch = 0, N = 0, Streaming = False, StopSequence = [], BatchSize = 0,
      MaxTries = 0, Diversity = 0\<rparr>"

subsection \<open>Errors, panics and results\<close>

text \<open>
  A Go \<^verbatim>\<open>error\<close> is a value with a message. \<open>errorString\<close> is the error type that
  \<^verbatim>\<open>errors.New\<close> and \<^verbatim>\<open>fmt.Errorf\<close> (without \<^verbatim>\<open>%w\<close>) build; \<open>libraryError\<close> stands for
  an error value that a library call hands back (named by the call and its message), which
  \<^verbatim>\<open>generateText\<close> passes on unchanged.
\<close>

datatype error = errorString string | libraryError string string

definition errors_New :: "string \<Rightarrow> error" where
  "errors_New text = errorString text"

text \<open>
  A run-time panic is not a return value. Indexing a slice of length \<open>n\<close> at \<open>i \<ge> n\<close>
  panics with \<^verbatim>\<open>index out of range [i] with length n\<close>.
\<close>

datatype panic = IndexOutOfRange nat nat

text \<open>
  A call of \<^verbatim>\<open>generateText\<close> either returns its pair \<^verbatim>\<open>(string, error)\<close>, where
  \<open>None\<close> is the \<^verbatim>\<open>nil\<close> error, or panics.
\<close>

datatype outcome = Return string "error option" | Panic panic

subsection \<open>Formatting of \<^verbatim>\<open>%d\<close>\<close>

definition digitChar :: "nat \<Rightarrow> char" where
  "digitChar d = ''0123456789'' ! (d mod 10)"

fun formatNat :: "nat \<Rightarrow> string" where
  "formatNat n = (if n < 10 then [digitChar n] else formatNat (n div 10) @ [digitChar (n mod 10)])"

declare formatNat.simps [simp del]

definition formatInt :: "int \<Rightarrow> string" where
  "formatInt i = (if i < 0 then CHR ''-'' # formatNat (nat (- i)) else formatNat (nat i))"

text \<open>
  \<^verbatim>\<open>fmt.Errorf("received non-200 status code: %d", code)\<close> and
  \<^verbatim>\<open>fmt.Sprintf("Bearer %s", apiKey)\<close>, the two format calls of the program.
\<close>

definition fmt_Errorf_status :: "int \<Rightarrow> error" where
  "fmt_Errorf_status code = errorString (''received non-200 status code: '' @ formatInt code)"

definition fmt_Sprintf_Bearer :: "string \<Rightarrow> string" where
  "fmt_Sprintf_Bearer apiKey = ''Bearer '' @ apiKey"

subsection \<open>The HTTP messages\<close>

text \<open>
  Of \<^verbatim>\<open>http.Request\<close> and \<^verbatim>\<open>http.Response\<close> the model keeps what the program sets or
  reads. A header maps a field name to its list of values; \<^verbatim>\<open>Header.Set\<close> replaces the
  values of a name by the one given. (The library first brings the name into its canonical
  capitalisation; the two names the program uses, \<^verbatim>\<open>Content-Type\<close> and
  \<^verbatim>\<open>Authorization\<close>, are canonical as written.) A body is the string of its bytes.
\<close>

type_synonym Header = "string \<rightharpoonup> string list"

record Request =
  Method :: string
  URL :: string
  Header :: Header
  RequestBody :: string

record Response =
  StatusCode :: int
  Body :: string

definition Header_Set :: "Request \<Rightarrow> string \<Rightarrow> string \<Rightarrow> Request" where
  "Header_Set req key val = req\<lparr>Header := (Header req)(key \<mapsto> [val])\<rparr>"

definition http_StatusOK :: int where
  "http_StatusOK = 200"

definition apiURL :: string where
  "apiURL = ''https://api.openai.com/v1/completions''"

subsection \<open>The world outside the function\<close>

text \<open>
  \<^verbatim>\<open>generateText\<close> calls five things that are not code of the program: the environment,
  \<^verbatim>\<open>json.Marshal\<close>, \<^verbatim>\<open>http.NewRequest\<close>, the transport behind \<^verbatim>\<open>client.Do\<close>, and
  \<^verbatim>\<open>json.NewDecoder(resp.Body).Decode\<close>. They are the fields of a \<open>world\<close>, so that
  every theorem holds for whatever they answer. Each is called at most once in a run, which
  is why a function of the arguments is enough.
  \<^item> \<open>os_Getenv\<close>: the value of a variable, empty when it is unset;
  \<^item> \<open>json_Marshal\<close>: the bytes of the encoded request, or an error;
  \<^item> \<open>http_NewRequest_error\<close>: the error with which \<^verbatim>\<open>http.NewRequest\<close> rejects a method
    and URL, if it does;
  \<^item> \<open>client_Do\<close>: the response the transport delivers for a request, or its error;
  \<^item> \<open>json_Decode\<close>: the struct decoded from the bytes of a response body, starting from
    the zero \<^verbatim>\<open>CompletionResponse\<close>, or an error.
\<close>

record world =
  os_Getenv :: "string \<Rightarrow> string"
  json_Marshal :: "CompletionRequest \<Rightarrow> error + string"
  http_NewRequest_error :: "string \<Rightarrow> string \<Rightarrow> error option"
  client_Do :: "Request \<Rightarrow> error + Response"
  json_Decode :: "string \<Rightarrow> error + CompletionResponse"

text \<open>
  \<^verbatim>\<open>http.NewRequest(method, url, body)\<close>: unless it rejects the method or the URL, the new
  request has that method (\<^verbatim>\<open>GET\<close> for the empty one), URL and body, and no header yet.
\<close>

definition http_NewRequest :: "world \<Rightarrow> string \<Rightarrow> string \<Rightarrow> string \<Rightarrow> error + Request" where
  "http_NewRequest w method url body =
     (case http_NewRequest_error w method url of
        Some err \<Rightarrow> Inl err
      | None \<Rightarrow>
          Inr \<lparr>Method = (if method = [] then ''GET'' else method), URL = url,
               Header = Map.empty, RequestBody = body\<rparr>)"

text \<open>
  What a run does to the outside is recorded as the list of its calls, in order.
\<close>

datatype event =
    Getenv string
  | Marshal CompletionRequest
  | NewRequest string string string
  | Do Request
  | Decode string
  | Close

subsection \<open>\<^verbatim>\<open>generateText\<close>\<close>

text \<open>
  The composite literal of the source: four fields set, the others zero.
\<close>

definition payload :: "string \<Rightarrow> string \<Rightarrow> CompletionRequest" where
  "payload prompt model =
     zeroCompletionRequest\<lparr>Prompt := prompt, Model := model, Temperature := 0.8,
       MaxTokens := 2000\<rparr>"

text \<open>
  The function, statement by statement. The result is the list of outside calls made and
  the outcome. \<^verbatim>\<open>defer resp.Body.Close()\<close> runs when the function leaves after a
  successful \<^verbatim>\<open>client.Do\<close>, by \<^verbatim>\<open>return\<close> or by panic, so \<open>Close\<close> ends each of those
  traces.
\<close>

definition generateText :: "world \<Rightarrow> string \<Rightarrow> string \<Rightarrow> event list \<times> outcome" where
  "generateText w prompt model0 =
     (let model = (if model0 = [] then ''text-davinci-003'' else model0);
          apiKey = os_Getenv w ''OPENAI_API_KEY'';
          t1 = [Getenv ''OPENAI_API_KEY'']
      in
      if apiKey = [] then
        (t1, Return [] (Some (errors_New ''OPENAI_API_KEY environment variable not set'')))
      else
        let t2 = t1 @ [Marshal (payload prompt model)] in
        case json_Marshal w (payload prompt model) of
          Inl err \<Rightarrow> (t2, Return [] (Some err))
        | Inr requestBody \<Rightarrow>
            let t3 = t2 @ [NewRequest ''POST'' apiURL requestBody] in
            (case http_NewRequest w ''POST'' apiURL requestBody of
               Inl err \<Rightarrow> (t3, Return [] (Some err))
             | Inr req0 \<Rightarrow>
                 let req1 = Header_Set req0 ''Content-Type'' ''application/json'';
                     req = Header_Set req1 ''Authorization'' (fmt_Sprintf_Bearer apiKey);
                     t4 = t3 @ [Do req]
                 in
                 (case client_Do w req of
                    Inl err \<Rightarrow> (t4, Return [] (Some err))
                  | Inr resp \<Rightarrow>
                      if StatusCode resp \<noteq> http_StatusOK then
                        (t4 @ [Close], Return [] (Some (fmt_Errorf_status (StatusCode resp))))
                      else
                        let t5 = t4 @ [Decode (Body resp)] in
                        (case json_Decode w (Body resp) of
                           Inl err \<Rightarrow> (t5 @ [Close], Return [] (Some err))
                         | Inr completionResponse \<Rightarrow>
                             (case Choices completionResponse of
                                [] \<Rightarrow> (t5 @ [Close], Panic (IndexOutOfRange 0 0))
                              | c # _ \<Rightarrow> (t5 @ [Close], Return (Text c) None))))))"

subsection \<open>Reading a trace\<close>

text \<open>
  The requests handed to the transport, the payloads handed to \<^verbatim>\<open>json.Marshal\<close> and the
  bodies handed to the decoder, each in the order of the calls.
\<close>

fun requestsSent :: "event list \<Rightarrow> Request list" where
  "requestsSent [] = []"
| "requestsSent (Do rq # es) = rq # requestsSent es"
| "requestsSent (_ # es) = requestsSent es"


fun bodiesDecoded :: "event list \<Rightarrow> string list" where
  "bodiesDecoded [] = []"
| "bodiesDecoded (Decode body # es) = body # bodiesDecoded es"
| "bodiesDecoded (_ # es) = bodiesDecoded es"

text \<open>
  The request that the specification describes: a \<^verbatim>\<open>POST\<close> to the completions endpoint
  with the two headers, carrying the given body.
\<close>

definition postRequest :: "string \<Rightarrow> string \<Rightarrow> Request" where
  "postRequest apiKey body =
     \<lparr>Method = ''POST'', URL = ''https://api.openai.com/v1/completions'',
      Header = [''Content-Type'' \<mapsto> [''application/json''],
                ''Authorization'' \<mapsto> [''Bearer '' @ apiKey]],
      RequestBody = body\<rparr>"

subsection \<open>A world for concrete runs\<close>

text \<open>
  A test double of the outside: the key is \<open>key\<close>, the encoder writes the two string
  fields, \<^verbatim>\<open>http.NewRequest\<close> accepts, the transport answers every request with
  \<open>answer\<close>, and the decoder's result for the body it is given is \<open>decoded\<close>.
\<close>

definition testMarshal :: "CompletionRequest \<Rightarrow> string" where
  \<open>testMarshal r = ''{"prompt":"'' @ Prompt r @ ''","model":"'' @ Model r @ ''"}''\<close>

definition testWorld :: "string \<Rightarrow> error + Response \<Rightarrow> error + CompletionResponse \<Rightarrow> world" where
  "testWorld key answer decoded =
     \<lparr>os_Getenv = (\<lambda>name. if name = ''OPENAI_API_KEY'' then key else []),
      json_Marshal = (\<lambda>r. Inr (testMarshal r)),
      http_NewRequest_error = (\<lambda>method url. None),
      client_Do = (\<lambda>rq. answer),
      json_Decode = (\<lambda>body. decoded)\<rparr>"

definition helloBody :: string where
  \<open>helloBody = ''{"choices":[{"text":"hello"}]}''\<close>

definition helloDecoded :: CompletionResponse where
  "helloDecoded = zeroCompletionResponse\<lparr>Choices := [zeroChoice\<lparr>Text := ''hello''\<rparr>]\<rparr>"

definition noChoicesBody :: string where
  \<open>noChoicesBody = ''{"choices":[]}''\<close>

definition noChoicesDecoded :: CompletionResponse where
  "noChoicesDecoded = zeroCompletionResponse\<lparr>Choices := []\<rparr>"

definition twoChoicesBody :: string where
  \<open>twoChoicesBody = ''{"choices":[{"text":"first"},{"text":"second"}]}''\<close>

definition twoChoicesDecoded :: CompletionResponse where
  "twoChoicesDecoded =
     zeroCompletionResponse\<lparr>Choices := [zeroChoice\<lparr>Text := ''first''\<rparr>,
       zeroChoice\<lparr>Text := ''second''\<rparr>]\<rparr>"

definition truncatedBody :: string where
  \<open>truncatedBody = ''{"choices":[{"text":"hel''\<close>

definition rateLimitBody :: string where
  \<open>rateLimitBody = ''{"error":{"message":"Rate limit reached"}}''\<close>

definition unexpectedEOF :: error where
  "unexpectedEOF = libraryError ''json.Decoder.Decode'' ''unexpected EOF''"

definition connectionRefused :: error where
  "connectionRefused = libraryError ''http.Client.Do'' ''dial tcp: connect: connection refused''"

text \<open>
  The runs used below: no key; the one-choice answer; the answer with no choice; the answer
  with two choices; a \<^verbatim>\<open>429\<close> answer; a body cut off in the middle; a transport that
  cannot connect.
\<close>

definition keylessWorld :: world where
  "keylessWorld = testWorld [] (Inr \<lparr>StatusCode = 200, Body = helloBody\<rparr>) (Inr helloDecoded)"

definition helloWorld :: world where
  "helloWorld =
     testWorld ''sk-test'' (Inr \<lparr>StatusCode = 200, Body = helloBody\<rparr>) (Inr helloDecoded)"

definition noChoicesWorld :: world where
  "noChoicesWorld =
     testWorld ''sk-test'' (Inr \<lparr>StatusCode = 200, Body = noChoicesBody\<rparr>) (Inr noChoicesDecoded)"

definition twoChoicesWorld :: world where
  "twoChoicesWorld =
     testWorld ''sk-test'' (Inr \<lparr>StatusCode = 200, Body = twoChoicesBody\<rparr>)
       (Inr twoChoicesDecoded)"

definition rateLimitedWorld :: world where
  "rateLimitedWorld =
     testWorld ''sk-test'' (Inr \<lparr>StatusCode = 429, Body = rateLimitBody\<rparr>)
       (Inr zeroCompletionResponse)"

definition truncatedWorld :: world where
  "truncatedWorld =
     testWorld ''sk-test'' (Inr \<lparr>StatusCode = 200, Body = truncatedBody\<rparr>) (Inl unexpectedEOF)"

definition offlineWorld :: world where
  "offlineWorld = testWorld ''sk-test'' (Inl connectionRefused) (Inl unexpectedEOF)"

section \<open>Properties\<close>

subsection \<open>The run up to the transport\<close>

text \<open>
  The run up to the transport: with a key, an encoded payload and an accepted request,
  the function has made exactly these four calls when \<^verbatim>\<open>client.Do\<close> answers, and goes
  on according to the answer.
\<close>

lemma generateText_after_Do:
  assumes "os_Getenv w ''OPENAI_API_KEY'' = apiKey" and "apiKey \<noteq> []"
    and "json_Marshal w (payload prompt (if model = [] then ''text-davinci-003'' else model)) = Inr b"
    and "http_NewRequest_error w ''POST'' apiURL = None"
  shows "generateText w prompt model =
    (let t4 = [Getenv ''OPENAI_API_KEY'',
               Marshal (payload prompt (if model = [] then ''text-davinci-003'' else model)),
               NewRequest ''POST'' apiURL b, Do (postRequest apiKey b)]
     in case client_Do w (postRequest apiKey b) of
          Inl err \<Rightarrow> (t4, Return [] (Some err))
        | Inr resp \<Rightarrow>
            if StatusCode resp \<noteq> 200 then
              (t4 @ [Close], Return [] (Some (fmt_Errorf_status (StatusCode resp))))
            else
              (case json_Decode w (Body resp) of
                 Inl err \<Rightarrow> (t4 @ [Decode (Body resp), Close], Return [] (Some err))
               | Inr completionResponse \<Rightarrow>
                   (case Choices completionResponse of
                      [] \<Rightarrow> (t4 @ [Decode (Body resp), Close], Panic (IndexOutOfRange 0 0))
                    | c # _ \<Rightarrow> (t4 @ [Decode (Body resp), Close], Return (Text c) None))))"
  using assms
  by (simp add: generateText_def Let_def http_NewRequest_def Header_Set_def postRequest_def
      fmt_Sprintf_Bearer_def apiURL_def http_StatusOK_def split: sum.splits list.splits)

lemma generateText_not_200:
  assumes "os_Getenv w ''OPENAI_API_KEY'' = apiKey" and "apiKey \<noteq> []"
    and "json_Marshal w (payload prompt (if model = [] then ''text-davinci-003'' else model)) = Inr b"
    and "http_NewRequest_error w ''POST'' apiURL = None"
    and "client_Do w (postRequest apiKey b) = Inr resp"
    and "StatusCode resp \<noteq> 200"
  shows "generateText w prompt model =
    ([Getenv ''OPENAI_API_KEY'',
      Marshal (payload prompt (if model = [] then ''text-davinci-003'' else model)),
      NewRequest ''POST'' apiURL b, Do (postRequest apiKey b), Close],
     Return [] (Some (errorString (''received non-200 status code: '' @ formatInt (StatusCode resp)))))"
  using assms(5,6) by (simp add: generateText_after_Do [OF assms(1-4)] fmt_Errorf_status_def)

lemma at_most_one_request: "length (requestsSent (fst (generateText w prompt model))) \<le> 1"
  by (simp add: generateText_def Let_def split: sum.splits list.splits)

lemma generateText_no_choices:
  assumes "os_Getenv w ''OPENAI_API_KEY'' = apiKey" and "apiKey \<noteq> []"
    and "json_Marshal w (payload prompt (if model = [] then ''text-davinci-003'' else model)) = Inr b"
    and "http_NewRequest_error w ''POST'' apiURL = None"
    and "client_Do w (postRequest apiKey b) = Inr resp"
    and "StatusCode resp = 200"
    and "json_Decode w (Body resp) = Inr completionResponse"
    and "Choices completionResponse = []"
  shows "snd (generateText w prompt model) = Panic (IndexOutOfRange 0 0)"
  using assms(5-8) by (simp add: generateText_after_Do [OF assms(1-4)])

subsection \<open>The claims\<close>

text \<open>
  C1 says that a decoded response with no choice makes \<^verbatim>\<open>generateText\<close> return an error.
  The source indexes \<^verbatim>\<open>completionResponse.Choices[0]\<close> without looking at the length,
  so that run ends in a panic. For every world that reaches the decoder it is
  \<open>generateText_no_choices\<close> above; the theorem is the run of the specification's own
  test: key set, answer \<^verbatim>\<open>200\<close> with body \<^verbatim>\<open>{"choices":[]}\<close>, which decodes to the
  empty slice. The trace shows the single request, the decoding and the deferred close; the
  outcome is the panic \<^verbatim>\<open>index out of range [0] with length 0\<close>, not a returned error.
\<close>

theorem empty_choices_panic:
  "generateText noChoicesWorld ''prompt'' [] =
     ([Getenv ''OPENAI_API_KEY'', Marshal (payload ''prompt'' ''text-davinci-003''),
       NewRequest ''POST'' apiURL (testMarshal (payload ''prompt'' ''text-davinci-003'')),
       Do (postRequest ''sk-test'' (testMarshal (payload ''prompt'' ''text-davinci-003''))),
       Decode noChoicesBody, Close],
      Panic (IndexOutOfRange 0 0))"
  by (simp add: generateText_def Let_def http_NewRequest_def Header_Set_def postRequest_def
      fmt_Sprintf_Bearer_def apiURL_def http_StatusOK_def noChoicesWorld_def testWorld_def
      noChoicesDecoded_def)

text \<open>
  C2: when the lookup of \<^verbatim>\<open>OPENAI_API_KEY\<close> yields the empty string, then for every
  prompt and model the function returns the empty text with the error
  \<^verbatim>\<open>OPENAI_API_KEY environment variable not set\<close>, and no request has been handed to the
  transport: the lookup of the key is the only call the run has made.
\<close>

theorem no_credential_no_network:
  assumes "os_Getenv w ''OPENAI_API_KEY'' = []"
  shows "snd (generateText w prompt model) =
           Return [] (Some (errorString ''OPENAI_API_KEY environment variable not set''))
         \<and> requestsSent (fst (generateText w prompt model)) = []
         \<and> fst (generateText w prompt model) = [Getenv ''OPENAI_API_KEY'']"
  using assms by (simp add: generateText_def Let_def errors_New_def)

theorem no_credential_no_network_witness:
  "os_Getenv keylessWorld ''OPENAI_API_KEY'' = []
   \<and> snd (generateText keylessWorld ''prompt'' []) =
       Return [] (Some (errorString ''OPENAI_API_KEY environment variable not set''))
   \<and> requestsSent (fst (generateText keylessWorld ''prompt'' [])) = []
   \<and> fst (generateText keylessWorld ''prompt'' []) = [Getenv ''OPENAI_API_KEY'']"
proof -
  have key: "os_Getenv keylessWorld ''OPENAI_API_KEY'' = []"
    by (simp add: keylessWorld_def testWorld_def)
  from no_credential_no_network [OF key, of "''prompt''" "[]"] key show ?thesis
    by simp
qed

text \<open>
  C3: with the key present, a transport that answers the request with status \<^verbatim>\<open>200\<close> and
  body \<^verbatim>\<open>{"choices":[{"text":"hello"}]}\<close>, and the decoder reading that body as the one
  choice with text \<^verbatim>\<open>hello\<close>, the call \<^verbatim>\<open>generateText("prompt", "")\<close> returns
  \<^verbatim>\<open>("hello", nil)\<close>. The two library calls before the request are taken to succeed,
  \<open>b\<close> being the encoded payload.
\<close>

theorem hello_returned:
  assumes "os_Getenv w ''OPENAI_API_KEY'' = apiKey" and "apiKey \<noteq> []"
    and "json_Marshal w (payload ''prompt'' ''text-davinci-003'') = Inr b"
    and "http_NewRequest_error w ''POST'' apiURL = None"
    and "client_Do w (postRequest apiKey b) = Inr \<lparr>StatusCode = 200, Body = helloBody\<rparr>"
    and "json_Decode w helloBody = Inr helloDecoded"
  shows "snd (generateText w ''prompt'' []) = Return ''hello'' None"
proof -
  have m: "json_Marshal w
      (payload ''prompt'' (if ([]::string) = [] then ''text-davinci-003'' else [])) = Inr b"
    using assms(3) by simp
  show ?thesis
    using assms(5,6)
    by (simp add: generateText_after_Do [OF assms(1,2) m assms(4)] helloDecoded_def)
qed

theorem hello_returned_witness:
  "os_Getenv helloWorld ''OPENAI_API_KEY'' = ''sk-test''
   \<and> ''sk-test'' \<noteq> []
   \<and> json_Marshal helloWorld (payload ''prompt'' ''text-davinci-003'') =
       Inr (testMarshal (payload ''prompt'' ''text-davinci-003''))
   \<and> http_NewRequest_error helloWorld ''POST'' apiURL = None
   \<and> client_Do helloWorld
       (postRequest ''sk-test'' (testMarshal (payload ''prompt'' ''text-davinci-003''))) =
       Inr \<lparr>StatusCode = 200, Body = helloBody\<rparr>
   \<and> json_Decode helloWorld helloBody = Inr helloDecoded
   \<and> snd (generateText helloWorld ''prompt'' []) = Return ''hello'' None"
  (is "?h1 \<and> ?h2 \<and> ?h3 \<and> ?h4 \<and> ?h5 \<and> ?h6 \<and> ?c")
proof -
  have h1: ?h1 and h2: ?h2 and h3: ?h3 and h4: ?h4 and h5: ?h5 and h6: ?h6
    by (simp_all add: helloWorld_def testWorld_def)
  from hello_returned [OF h1 h2 h3 h4 h5 h6] have ?c .
  with h1 h2 h3 h4 h5 h6 show ?thesis by blast
qed

text \<open>
  C4: when the transport answers with a status code outside \<^verbatim>\<open>200..299\<close>, the function
  returns the empty text with the error \<^verbatim>\<open>received non-200 status code: <code>\<close>, and no
  body has been handed to the decoder. (The source compares with \<^verbatim>\<open>http.StatusOK\<close>, so
  the same holds for every code other than \<^verbatim>\<open>200\<close>: \<open>generateText_not_200\<close>.) The
  witness is the status \<^verbatim>\<open>429\<close>.
\<close>

theorem non_success_status:
  assumes "os_Getenv w ''OPENAI_API_KEY'' = apiKey" and "apiKey \<noteq> []"
    and "json_Marshal w (payload prompt (if model = [] then ''text-davinci-003'' else model)) = Inr b"
    and "http_NewRequest_error w ''POST'' apiURL = None"
    and "client_Do w (postRequest apiKey b) = Inr resp"
    and "StatusCode resp < 200 \<or> 299 < StatusCode resp"
  shows "snd (generateText w prompt model) =
           Return [] (Some (errorString
             (''received non-200 status code: '' @ formatInt (StatusCode resp))))
         \<and> bodiesDecoded (fst (generateText w prompt model)) = []"
proof -
  from assms(6) have "StatusCode resp \<noteq> 200" by arith
  from generateText_not_200 [OF assms(1-5) this] show ?thesis
    by (simp add: apiURL_def)
qed

theorem non_success_status_witness:
  "os_Getenv rateLimitedWorld ''OPENAI_API_KEY'' = ''sk-test''
   \<and> ''sk-test'' \<noteq> []
   \<and> json_Marshal rateLimitedWorld
       (payload ''prompt'' (if ([]::string) = [] then ''text-davinci-003'' else [])) =
       Inr (testMarshal (payload ''prompt'' ''text-davinci-003''))
   \<and> http_NewRequest_error rateLimitedWorld ''POST'' apiURL = None
   \<and> client_Do rateLimitedWorld
       (postRequest ''sk-test'' (testMarshal (payload ''prompt'' ''text-davinci-003''))) =
       Inr \<lparr>StatusCode = 429, Body = rateLimitBody\<rparr>
   \<and> (StatusCode \<lparr>StatusCode = 429, Body = rateLimitBody\<rparr> < 200
       \<or> 299 < StatusCode \<lparr>StatusCode = 429, Body = rateLimitBody\<rparr>)
   \<and> snd (generateText rateLimitedWorld ''prompt'' []) =
       Return [] (Some (errorString ''received non-200 status code: 429''))
   \<and> bodiesDecoded (fst (generateText rateLimitedWorld ''prompt'' [])) = []"
  (is "?h1 \<and> ?h2 \<and> ?h3 \<and> ?h4 \<and> ?h5 \<and> ?h6 \<and> ?c1 \<and> ?c2")
proof -
  have h1: ?h1 and h2: ?h2 and h3: ?h3 and h4: ?h4 and h5: ?h5 and h6: ?h6
    by (simp_all add: rateLimitedWorld_def testWorld_def)
  have d: "formatInt 429 = ''429''"
    by (simp add: formatInt_def formatNat.simps digitChar_def)
  from non_success_status [OF h1 h2 h3 h4 h5 h6] d have ?c1 and ?c2
    by simp_all
  with h1 h2 h3 h4 h5 h6 show ?thesis by blast
qed



text \<open>
  C6: every payload that a run of \<^verbatim>\<open>generateText\<close> hands to \<^verbatim>\<open>json.Marshal\<close>, whatever
  the prompt and the model, has \<^verbatim>\<open>Temperature\<close> 0.8 and \<^verbatim>\<open>MaxTokens\<close> 2000.
\<close>

theorem fixed_parameters:
  assumes "Marshal r \<in> set (fst (generateText w prompt model))"
  shows "Temperature r = 0.8 \<and> MaxTokens r = 2000"
  using assms
  by (auto simp add: generateText_def Let_def payload_def split: if_splits sum.splits list.splits)

theorem fixed_parameters_witness:
  "Marshal (payload ''prompt'' ''gpt-x'') \<in> set (fst (generateText helloWorld ''prompt'' ''gpt-x''))
   \<and> Temperature (payload ''prompt'' ''gpt-x'') = 0.8
   \<and> MaxTokens (payload ''prompt'' ''gpt-x'') = 2000"
proof -
  have m: "Marshal (payload ''prompt'' ''gpt-x'')
      \<in> set (fst (generateText helloWorld ''prompt'' ''gpt-x''))"
    by (simp add: generateText_def Let_def http_NewRequest_def helloWorld_def testWorld_def
        http_StatusOK_def helloDecoded_def)
  from fixed_parameters [OF m] m show ?thesis by simp
qed

text \<open>
  C7: with the key present (and the payload encoded to \<open>b\<close> and the request accepted by
  \<^verbatim>\<open>http.NewRequest\<close>), the run hands exactly one request to the transport: method
  \<^verbatim>\<open>POST\<close>, URL \<^verbatim>\<open>https://api.openai.com/v1/completions\<close>, header
  \<^verbatim>\<open>Content-Type\<close> set to \<^verbatim>\<open>application/json\<close>, header \<^verbatim>\<open>Authorization\<close> set to
  \<^verbatim>\<open>Bearer\<close>, a space and the key, and body \<open>b\<close>. When the transport fails, its error
  is returned with the empty text, and that one request was the only one. (No run sends more
  than one request: \<open>at_most_one_request\<close>.)
\<close>

theorem single_post:
  assumes "os_Getenv w ''OPENAI_API_KEY'' = apiKey" and "apiKey \<noteq> []"
    and "json_Marshal w (payload prompt (if model = [] then ''text-davinci-003'' else model)) = Inr b"
    and "http_NewRequest_error w ''POST'' apiURL = None"
  shows "requestsSent (fst (generateText w prompt model)) = [postRequest apiKey b]
         \<and> (\<forall>err. client_Do w (postRequest apiKey b) = Inl err \<longrightarrow>
              snd (generateText w prompt model) = Return [] (Some err))"
  by (simp add: generateText_after_Do [OF assms] Let_def split: sum.splits list.splits)

theorem single_post_witness:
  "os_Getenv offlineWorld ''OPENAI_API_KEY'' = ''sk-test''
   \<and> ''sk-test'' \<noteq> []
   \<and> json_Marshal offlineWorld
       (payload ''prompt'' (if ([]::string) = [] then ''text-davinci-003'' else [])) =
       Inr (testMarshal (payload ''prompt'' ''text-davinci-003''))
   \<and> http_NewRequest_error offlineWorld ''POST'' apiURL = None
   \<and> client_Do offlineWorld
       (postRequest ''sk-test'' (testMarshal (payload ''prompt'' ''text-davinci-003''))) =
       Inl connectionRefused
   \<and> requestsSent (fst (generateText offlineWorld ''prompt'' [])) =
       [postRequest ''sk-test'' (testMarshal (payload ''prompt'' ''text-davinci-003''))]
   \<and> snd (generateText offlineWorld ''prompt'' []) = Return [] (Some connectionRefused)"
  (is "?h1 \<and> ?h2 \<and> ?h3 \<and> ?h4 \<and> ?h5 \<and> ?c1 \<and> ?c2")
proof -
  have h1: ?h1 and h2: ?h2 and h3: ?h3 and h4: ?h4 and h5: ?h5
    by (simp_all add: offlineWorld_def testWorld_def)
  from single_post [OF h1 h2 h3 h4] h5 have ?c1 and ?c2
    by blast+
  with h1 h2 h3 h4 h5 show ?thesis by blast
qed

text \<open>
  C8: when the status is \<^verbatim>\<open>200\<close> and the decoder rejects the body, the function returns
  the decoder's error with the empty text.
\<close>

theorem malformed_body:
  assumes "os_Getenv w ''OPENAI_API_KEY'' = apiKey" and "apiKey \<noteq> []"
    and "json_Marshal w (payload prompt (if model = [] then ''text-davinci-003'' else model)) = Inr b"
    and "http_NewRequest_error w ''POST'' apiURL = None"
    and "client_Do w (postRequest apiKey b) = Inr resp"
    and "StatusCode resp = 200"
    and "json_Decode w (Body resp) = Inl err"
  shows "snd (generateText w prompt model) = Return [] (Some err)"
  using assms(5-7) by (simp add: generateText_after_Do [OF assms(1-4)])

theorem malformed_body_witness:
  "os_Getenv truncatedWorld ''OPENAI_API_KEY'' = ''sk-test''
   \<and> ''sk-test'' \<noteq> []
   \<and> json_Marshal truncatedWorld
       (payload ''prompt'' (if ([]::string) = [] then ''text-davinci-003'' else [])) =
       Inr (testMarshal (payload ''prompt'' ''text-davinci-003''))
   \<and> http_NewRequest_error truncatedWorld ''POST'' apiURL = None
   \<and> client_Do truncatedWorld
       (postRequest ''sk-test'' (testMarshal (payload ''prompt'' ''text-davinci-003''))) =
       Inr \<lparr>StatusCode = 200, Body = truncatedBody\<rparr>
   \<and> StatusCode \<lparr>StatusCode = 200, Body = truncatedBody\<rparr> = 200
   \<and> json_Decode truncatedWorld (Body \<lparr>StatusCode = 200, Body = truncatedBody\<rparr>) =
       Inl unexpectedEOF
   \<and> snd (generateText truncatedWorld ''prompt'' []) = Return [] (Some unexpectedEOF)"
  (is "?h1 \<and> ?h2 \<and> ?h3 \<and> ?h4 \<and> ?h5 \<and> ?h6 \<and> ?h7 \<and> ?c")
proof -
  have h1: ?h1 and h2: ?h2 and h3: ?h3 and h4: ?h4 and h5: ?h5 and h6: ?h6 and h7: ?h7
    by (simp_all add: truncatedWorld_def testWorld_def)
  from malformed_body [OF h1 h2 h3 h4 h5 h6 h7] have ?c .
  with h1 h2 h3 h4 h5 h6 h7 show ?thesis by blast
qed

text \<open>
  C9: when the status is \<^verbatim>\<open>200\<close> and the decoded response has at least one choice, the
  function returns the text of the first one with no error, whatever the further choices
  \<open>cs\<close> are.
\<close>

theorem first_choice_only:
  assumes "os_Getenv w ''OPENAI_API_KEY'' = apiKey" and "apiKey \<noteq> []"
    and "json_Marshal w (payload prompt (if model = [] then ''text-davinci-003'' else model)) = Inr b"
    and "http_NewRequest_error w ''POST'' apiURL = None"
    and "client_Do w (postRequest apiKey b) = Inr resp"
    and "StatusCode resp = 200"
    and "json_Decode w (Body resp) = Inr completionResponse"
    and "Choices completionResponse = c # cs"
  shows "snd (generateText w prompt model) = Return (Text c) None"
  using assms(5-8) by (simp add: generateText_after_Do [OF assms(1-4)])

theorem first_choice_only_witness:
  "os_Getenv twoChoicesWorld ''OPENAI_API_KEY'' = ''sk-test''
   \<and> ''sk-test'' \<noteq> []
   \<and> json_Marshal twoChoicesWorld
       (payload ''prompt'' (if ([]::string) = [] then ''text-davinci-003'' else [])) =
       Inr (testMarshal (payload ''prompt'' ''text-davinci-003''))
   \<and> http_NewRequest_error twoChoicesWorld ''POST'' apiURL = None
   \<and> client_Do twoChoicesWorld
       (postRequest ''sk-test'' (testMarshal (payload ''prompt'' ''text-davinci-003''))) =
       Inr \<lparr>StatusCode = 200, Body = twoChoicesBody\<rparr>
   \<and> StatusCode \<lparr>StatusCode = 200, Body = twoChoicesBody\<rparr> = 200
   \<and> json_Decode twoChoicesWorld (Body \<lparr>StatusCode = 200, Body = twoChoicesBody\<rparr>) =
       Inr twoChoicesDecoded
   \<and> Choices twoChoicesDecoded =
       zeroChoice\<lparr>Text := ''first''\<rparr> # [zeroChoice\<lparr>Text := ''second''\<rparr>]
   \<and> snd (generateText twoChoicesWorld ''prompt'' []) = Return ''first'' None"
  (is "?h1 \<and> ?h2 \<and> ?h3 \<and> ?h4 \<and> ?h5 \<and> ?h6 \<and> ?h7 \<and> ?h8 \<and> ?c")
proof -
  have h1: ?h1 and h2: ?h2 and h3: ?h3 and h4: ?h4 and h5: ?h5 and h6: ?h6 and h7: ?h7
    and h8: ?h8
    by (simp_all add: twoChoicesWorld_def testWorld_def twoChoicesDecoded_def)
  from first_choice_only [OF h1 h2 h3 h4 h5 h6 h7 h8] have ?c by simp
  with h1 h2 h3 h4 h5 h6 h7 h8 show ?thesis by blast
qed

text \<open>
  C10: whenever \<^verbatim>\<open>generateText\<close> returns an error that is not \<^verbatim>\<open>nil\<close>, the text it
  returns with it is the empty string.
\<close>

theorem error_means_empty_text:
  assumes "snd (generateText w prompt model) = Return text (Some err)"
  shows "text = []"
  using assms
  by (auto simp add: generateText_def Let_def split: if_splits sum.splits list.splits)

theorem error_means_empty_text_witness:
  "snd (generateText rateLimitedWorld ''prompt'' []) =
     Return [] (Some (errorString ''received non-200 status code: 429''))
   \<and> ([]::string) = []"
proof -
  have r: "snd (generateText rateLimitedWorld ''prompt'' []) =
     Return [] (Some (errorString ''received non-200 status code: 429''))"
    by (simp add: generateText_def Let_def http_NewRequest_def rateLimitedWorld_def
        testWorld_def http_StatusOK_def fmt_Errorf_status_def formatInt_def formatNat.simps
        digitChar_def)
  from error_means_empty_text [OF r] r show ?thesis by simp
qed

end
